theory Spec2Isabelle
  imports Complex_Main "HOL-Library.Sublist"
begin

section \<open>Python values, exceptions and results\<close>

text \<open>
  The exceptions the modelled code can raise. A computation that may raise returns
  \<open>exn + 'a\<close>, with \<open>Inl\<close> for the raised exception.
\<close>

datatype exn =
    KeyError
  | TypeError
  | AttributeError
  | IndexError
  | ValueError
  | JSONDecodeError
  | AppError string string  \<comment> \<open>any other exception: its class name and its message\<close>

text \<open>
  A value produced by \<open>json.load\<close>: \<open>None\<close>, a bool, a number, a \<open>str\<close>, a list, or
  a \<open>dict\<close> with string keys (an association list, looked up with \<open>map_of\<close>).
\<close>

datatype json =
    JNull
  | JBool bool
  | JNum real
  | JStr string
  | JArr "json list"
  | JObj "(string \<times> json) list"

text \<open>Sequencing of computations that may raise: the first exception wins.\<close>

fun then_do :: "exn + 'a \<Rightarrow> ('a \<Rightarrow> exn + 'b) \<Rightarrow> exn + 'b" where
  "then_do (Inl e) f = Inl e"
| "then_do (Inr x) f = f x"

text \<open>\<open>value[key]\<close> with a string key: only a \<open>dict\<close> accepts it.\<close>

fun getitem :: "json \<Rightarrow> string \<Rightarrow> exn + json" where
  "getitem (JObj kvs) k = (case map_of kvs k of None \<Rightarrow> Inl KeyError | Some v \<Rightarrow> Inr v)"
| "getitem _ k = Inl TypeError"

text \<open>\<open>t - value\<close> for a float \<open>t\<close>: defined on numbers (and on bools, which are ints).\<close>

fun float_sub :: "real \<Rightarrow> json \<Rightarrow> exn + real" where
  "float_sub t (JNum x) = Inr (t - x)"
| "float_sub t (JBool b) = Inr (t - (if b then 1 else 0))"
| "float_sub t _ = Inl TypeError"

section \<open>The response cache (\<open>utils/cache.py\<close>)\<close>

text \<open>
  A cache file holds text: either a JSON document or text that \<open>json.load\<close> rejects.
  The cache directory is a map from paths to files. The hash function of
  \<open>hashlib\<close> is a parameter \<open>sha256\<close> of every operation; the clock reading
  \<open>time.time()\<close> is the parameter \<open>now\<close>.
\<close>

datatype cache_file = Doc json | Malformed

type_synonym storage = "string \<rightharpoonup> cache_file"

record ResponseCache =
  cache_dir :: string
  ttl_seconds :: int

fun json_load :: "cache_file \<Rightarrow> exn + json" where
  "json_load (Doc v) = Inr v"
| "json_load Malformed = Inl JSONDecodeError"

definition get_cache_key :: "(string \<Rightarrow> string) \<Rightarrow> string \<Rightarrow> string \<Rightarrow> string" where
  "get_cache_key sha256 prompt model = sha256 (model @ '':'' @ prompt)"

definition get_cache_path :: "ResponseCache \<Rightarrow> string \<Rightarrow> string" where
  "get_cache_path c cache_key = cache_dir c @ ''/'' @ cache_key @ ''.json''"

text \<open>
  The body of the \<open>try\<close> block of \<open>get\<close>: \<open>Inr None\<close> is the expired branch (which
  unlinks the file), \<open>Inr (Some r)\<close> the stored response.
\<close>

definition get_try :: "ResponseCache \<Rightarrow> real \<Rightarrow> cache_file \<Rightarrow> exn + json option" where
  "get_try c now f =
     then_do (json_load f) (\<lambda>data.
     then_do (getitem data ''timestamp'') (\<lambda>ts.
     then_do (float_sub now ts) (\<lambda>age.
       if age > real_of_int (ttl_seconds c) then Inr None
       else then_do (getitem data ''response'') (\<lambda>r. Inr (Some r)))))"

definition ResponseCache_get ::
  "(string \<Rightarrow> string) \<Rightarrow> ResponseCache \<Rightarrow> string \<Rightarrow> string \<Rightarrow> real \<Rightarrow> storage
     \<Rightarrow> (exn + json option) \<times> storage" where
  "ResponseCache_get sha256 c prompt model now fs =
     (let cache_key = get_cache_key sha256 prompt model;
          cache_path = get_cache_path c cache_key
      in case fs cache_path of
           None \<Rightarrow> (Inr None, fs)
         | Some f \<Rightarrow>
             (case get_try c now f of
                Inr None \<Rightarrow> (Inr None, fs(cache_path := None))
              | Inr (Some r) \<Rightarrow> (Inr (Some r), fs)
              | Inl e \<Rightarrow>
                  if e = JSONDecodeError \<or> e = KeyError
                  then (Inr None, fs(cache_path := None))
                  else (Inl e, fs)))"

definition ResponseCache_set ::
  "(string \<Rightarrow> string) \<Rightarrow> ResponseCache \<Rightarrow> string \<Rightarrow> string \<Rightarrow> string \<Rightarrow> real \<Rightarrow> storage
     \<Rightarrow> storage" where
  "ResponseCache_set sha256 c prompt model response now fs =
     (let cache_key = get_cache_key sha256 prompt model;
          cache_path = get_cache_path c cache_key;
          data = JObj [(''timestamp'', JNum now), (''prompt'', JStr prompt),
                       (''model'', JStr model), (''response'', JStr response)]
      in fs(cache_path \<mapsto> Doc data))"

section \<open>The retry wrapper (\<open>handlers/error_handler.py\<close>)\<close>

text \<open>
  The wrapped function is an operation on a state \<open>'s\<close>: it returns a value or raises,
  and leaves a new state. \<open>exceptions\<close> is the test \<open>isinstance(e, exceptions)\<close> of the
  \<open>except\<close> clause. A run of the wrapper records what the caller sees (\<open>Inl e\<close>: \<open>e\<close> is
  raised; \<open>Inr (Some v)\<close>: \<open>v\<close> is returned; \<open>Inr None\<close>: the wrapper falls off its end
  and returns \<open>None\<close>), how often the function was invoked, and the sleeps, in order.
\<close>

record ('a, 's) retry_run =
  outcome :: "exn + 'a option"
  invocations :: nat
  sleeps :: "real list"
  final_state :: 's

text \<open>
  The \<open>for attempt in range(max_retries + 1)\<close> loop, over the attempts still to run.
  \<open>time.sleep\<close> raises \<open>ValueError\<close> on a negative duration.
\<close>

fun wrapper_loop ::
  "(exn \<Rightarrow> bool) \<Rightarrow> ('s \<Rightarrow> (exn + 'a) \<times> 's) \<Rightarrow> int \<Rightarrow> real \<Rightarrow> int list \<Rightarrow> real
     \<Rightarrow> exn option \<Rightarrow> 's \<Rightarrow> nat \<Rightarrow> real list \<Rightarrow> ('a, 's) retry_run" where
  "wrapper_loop exceptions func max_retries backoff [] current_delay last_exception s n sl =
     \<lparr>outcome = (case last_exception of Some e \<Rightarrow> Inl e | None \<Rightarrow> Inr None),
      invocations = n, sleeps = sl, final_state = s\<rparr>"
| "wrapper_loop exceptions func max_retries backoff (attempt # rest) current_delay
       last_exception s n sl =
     (case func s of
        (Inr v, s') \<Rightarrow>
          \<lparr>outcome = Inr (Some v), invocations = Suc n, sleeps = sl, final_state = s'\<rparr>
      | (Inl e, s') \<Rightarrow>
          if exceptions e then
            if attempt < max_retries then
              if current_delay < 0 then
                \<lparr>outcome = Inl ValueError, invocations = Suc n, sleeps = sl, final_state = s'\<rparr>
              else wrapper_loop exceptions func max_retries backoff rest
                     (current_delay * backoff) (Some e) s' (Suc n) (sl @ [current_delay])
            else \<lparr>outcome = Inl e, invocations = Suc n, sleeps = sl, final_state = s'\<rparr>
          else \<lparr>outcome = Inl e, invocations = Suc n, sleeps = sl, final_state = s'\<rparr>)"

definition retry_on_error ::
  "int \<Rightarrow> real \<Rightarrow> real \<Rightarrow> (exn \<Rightarrow> bool) \<Rightarrow> ('s \<Rightarrow> (exn + 'a) \<times> 's) \<Rightarrow> 's
     \<Rightarrow> ('a, 's) retry_run" where
  "retry_on_error max_retries delay backoff exceptions func s =
     wrapper_loop exceptions func max_retries backoff [0..max_retries] delay None s 0 []"

section \<open>The rate limiter (\<open>utils/rate_limiter.py\<close>)\<close>

text \<open>
  The deque of request timestamps is a list, oldest first. The readings of
  \<open>time.time()\<close> are parameters of each operation; \<open>time.sleep\<close> is recorded as the
  duration asked for.
\<close>

record RateLimiter =
  requests_per_minute :: int
  window_size :: real
  requests :: "real list"

definition RateLimiter_init :: "int \<Rightarrow> RateLimiter" where
  "RateLimiter_init rpm = \<lparr>requests_per_minute = rpm, window_size = 60, requests = []\<rparr>"

text \<open>
  \<open>while self.requests and now - self.requests[0] > self.window_size:
  self.requests.popleft()\<close>
\<close>

definition popleft_expired :: "real \<Rightarrow> RateLimiter \<Rightarrow> RateLimiter" where
  "popleft_expired now rl =
     rl\<lparr>requests := dropWhile (\<lambda>t. now - t > window_size rl) (requests rl)\<rparr>"

text \<open>
  \<open>acquire\<close>: \<open>now\<close> is the first clock reading, \<open>now_after\<close> the reading taken after the
  sleep (read only when the window is full). The result is the sleep performed, if any,
  and the new limiter. \<open>self.requests[0]\<close> on an empty deque raises \<open>IndexError\<close>.
\<close>

definition RateLimiter_acquire ::
  "real \<Rightarrow> real \<Rightarrow> RateLimiter \<Rightarrow> exn + (real option \<times> RateLimiter)" where
  "RateLimiter_acquire now now_after rl =
     (let rl1 = popleft_expired now rl in
      if int (length (requests rl1)) \<ge> requests_per_minute rl1 then
        (case requests rl1 of
           [] \<Rightarrow> Inl IndexError
         | oldest # _ \<Rightarrow>
             let sleep_time = window_size rl1 - (now - oldest);
                 rl2 = popleft_expired now_after rl1
             in Inr (if sleep_time > 0 then Some sleep_time else None,
                     rl2\<lparr>requests := requests rl2 @ [now_after]\<rparr>))
      else Inr (None, rl1\<lparr>requests := requests rl1 @ [now]\<rparr>))"

record usage =
  current_requests :: int
  max_requests :: int

definition RateLimiter_get_current_usage :: "real \<Rightarrow> RateLimiter \<Rightarrow> usage \<times> RateLimiter" where
  "RateLimiter_get_current_usage now rl =
     (let rl1 = popleft_expired now rl in
      (\<lparr>current_requests = int (length (requests rl1)),
        max_requests = requests_per_minute rl1\<rparr>, rl1))"

section \<open>Strings\<close>

abbreviation NL :: string where
  "NL \<equiv> [CHR 0x0A]"

text \<open>\<open>sub in s\<close> on strings: \<open>sub\<close> occurs in \<open>s\<close> as a contiguous substring.\<close>

fun contains :: "string \<Rightarrow> string \<Rightarrow> bool" where
  "contains sub [] = (sub = [])"
| "contains sub (c # cs) = (prefix sub (c # cs) \<or> contains sub cs)"

text \<open>\<open>sep.join(parts)\<close>\<close>

fun join :: "string \<Rightarrow> string list \<Rightarrow> string" where
  "join sep [] = []"
| "join sep [x] = x"
| "join sep (x # y # ys) = x @ sep @ join sep (y # ys)"

text \<open>\<open>str(n)\<close> for a non-negative integer: its decimal digits.\<close>

fun str_of_nat :: "nat \<Rightarrow> string" where
  "str_of_nat n =
     (if n < 10 then [''0123456789'' ! n]
      else str_of_nat (n div 10) @ [''0123456789'' ! (n mod 10)])"

declare str_of_nat.simps [simp del]

section \<open>The vector store's search (\<open>rag/vector_store.py\<close>)\<close>

text \<open>
  What \<open>collection.query\<close> returns for one query embedding: parallel columns, each a
  list with one row per query; a column other than \<open>ids\<close> may be \<open>None\<close>. The embedding
  model and the index are outside the repository: the store is represented by
  \<open>collection_query\<close>, the composition of \<open>embedding_model.encode\<close> and
  \<open>collection.query\<close>, which may raise.
\<close>

type_synonym metadata = "(string \<times> string) list"

record query_result =
  ids :: "string list list"
  distances :: "real list list option"
  documents :: "string list list option"
  metadatas :: "metadata list list option"

record search_hit =
  result_id :: string
  content :: string
  metadata :: metadata
  score :: real

text \<open>\<open>results[col][0][i] if results[col] else dflt\<close>: an empty column is falsy too.\<close>

definition column_at :: "'a list list option \<Rightarrow> nat \<Rightarrow> 'a \<Rightarrow> exn + 'a" where
  "column_at col i dflt =
     (case col of
        None \<Rightarrow> Inr dflt
      | Some [] \<Rightarrow> Inr dflt
      | Some (row # _) \<Rightarrow> if i < length row then Inr (row ! i) else Inl IndexError)"

text \<open>The loop \<open>for i in range(len(results["ids"][0]))\<close>, over the indices still to visit.\<close>

fun search_rows ::
  "query_result \<Rightarrow> real option \<Rightarrow> string list \<Rightarrow> nat list \<Rightarrow> exn + search_hit list" where
  "search_rows results min_similarity row [] = Inr []"
| "search_rows results min_similarity row (i # rest) =
     then_do (column_at (distances results) i 0) (\<lambda>distance.
       let similarity = 1 - distance in
       if (case min_similarity of None \<Rightarrow> False | Some t \<Rightarrow> similarity < t)
       then search_rows results min_similarity row rest
       else
         then_do (column_at (documents results) i []) (\<lambda>doc.
         then_do (column_at (metadatas results) i []) (\<lambda>md.
         then_do (search_rows results min_similarity row rest) (\<lambda>hits.
           Inr (\<lparr>result_id = row ! i, content = doc, metadata = md, score = similarity\<rparr>
                  # hits)))))"

definition VectorStore_search ::
  "(string \<Rightarrow> int \<Rightarrow> exn + query_result) \<Rightarrow> string \<Rightarrow> int \<Rightarrow> real option
     \<Rightarrow> exn + search_hit list" where
  "VectorStore_search collection_query query top_k min_similarity =
     then_do (collection_query query top_k) (\<lambda>results.
       case ids results of
         [] \<Rightarrow> Inr []
       | row # _ \<Rightarrow> search_rows results min_similarity row [0..<length row])"

section \<open>The query engine (\<open>rag/query_engine.py\<close>)\<close>

text \<open>
  The engine holds the LLM client (\<open>complete(prompt, system)\<close>, which may raise), the
  vector store, and the two texts read from the prompts configuration; the template's
  \<open>format(context=..., question=...)\<close> is a function of the context and the question
  that may raise.
\<close>

record QueryEngine =
  complete :: "string \<Rightarrow> string \<Rightarrow> exn + string"
  collection_query :: "string \<Rightarrow> int \<Rightarrow> exn + query_result"
  top_k :: int
  min_similarity :: real
  system_prompt :: string
  query_template :: "string \<Rightarrow> string \<Rightarrow> exn + string"

record source =
  url :: string
  author :: string
  timestamp :: string
  source_score :: real
  content_preview :: string

text \<open>
  The response dictionary. Its key \<open>num_sources\<close> is not present in every response:
  \<open>None\<close> stands for a dictionary without that key.
\<close>

record response =
  answer :: string
  sources :: "source list"
  context_used :: "search_hit list"
  num_sources :: "int option"

text \<open>\<open>metadata.get(key, dflt)\<close>\<close>

definition md_get :: "metadata \<Rightarrow> string \<Rightarrow> string \<Rightarrow> string" where
  "md_get md k dflt = (case map_of md k of None \<Rightarrow> dflt | Some v \<Rightarrow> v)"

definition context_part :: "nat \<Rightarrow> search_hit \<Rightarrow> string" where
  "context_part i result =
     ''Message '' @ str_of_nat i @ '':'' @ NL
     @ ''Author: '' @ md_get (metadata result) ''author'' ''Unknown'' @ NL
     @ ''Timestamp: '' @ md_get (metadata result) ''timestamp'' [] @ NL
     @ ''URL: '' @ md_get (metadata result) ''url'' [] @ NL
     @ ''Content: '' @ content result @ NL"

definition format_context :: "search_hit list \<Rightarrow> string" where
  "format_context results =
     join NL (map (\<lambda>(i, result). context_part i result)
                (zip [1..<Suc (length results)] results))"

definition make_source :: "search_hit \<Rightarrow> source" where
  "make_source result =
     \<lparr>url = md_get (metadata result) ''url'' [],
      author = md_get (metadata result) ''author'' ''Unknown'',
      timestamp = md_get (metadata result) ''timestamp'' [],
      source_score = score result,
      content_preview =
        (if length (content result) > 100 then take 100 (content result) @ ''...''
         else content result)\<rparr>"

definition no_results_answer :: string where
  "no_results_answer = ''I couldn't find any relevant messages to answer your question.''"

text \<open>
  \<open>query\<close> returns what the caller sees together with the calls made to the LLM, each
  recorded as the pair of the prompt and the system prompt.
\<close>

definition QueryEngine_query ::
  "QueryEngine \<Rightarrow> string \<Rightarrow> (exn + response) \<times> (string \<times> string) list" where
  "QueryEngine_query e question =
     (case VectorStore_search (collection_query e) question (top_k e)
             (Some (min_similarity e)) of
        Inl x \<Rightarrow> (Inl x, [])
      | Inr results \<Rightarrow>
          if results = [] then
            (Inr \<lparr>answer = no_results_answer, sources = [], context_used = [],
                  num_sources = None\<rparr>, [])
          else
            (case query_template e (format_context results) question of
               Inl x \<Rightarrow> (Inl x, [])
             | Inr prompt \<Rightarrow>
                 (case complete e prompt (system_prompt e) of
                    Inl x \<Rightarrow> (Inl x, [(prompt, system_prompt e)])
                  | Inr a \<Rightarrow>
                      (Inr \<lparr>answer = a, sources = map make_source results,
                            context_used = results,
                            num_sources = Some (int (length (map make_source results)))\<rparr>,
                       [(prompt, system_prompt e)]))))"

definition source_line :: "source \<Rightarrow> string" where
  "source_line s =
     ''- '' @ content_preview s @ '' by '' @ author s @ '' ('' @ url s @ '')'' @ NL"

definition format_response :: "response \<Rightarrow> string" where
  "format_response r =
     (let output = answer r in
      if sources r = [] then output
      else if \<not> contains ''Sources:'' output
      then foldl (\<lambda>out s. out @ source_line s) (output @ NL @ NL @ ''Sources:'' @ NL)
             (sources r)
      else output)"

text \<open>A fixture: an index holding two messages, at cosine distances 0.1 and 0.4.\<close>

definition demo_engine :: QueryEngine where
  "demo_engine =
     \<lparr>complete = (\<lambda>prompt system. Inr ''The budget is 5.''),
      collection_query = (\<lambda>query k. Inr
         \<lparr>ids = [[''m1'', ''m2'']],
          distances = Some [[1/10, 2/5]],
          documents = Some [[''budget'', ''feature'']],
          metadatas = Some [[[(''author'', ''Alice''), (''url'', ''u1'')],
                             [(''author'', ''Bob'')]]]\<rparr>),
      top_k = 3,
      min_similarity = 7/10,
      system_prompt = ''system'',
      query_template = (\<lambda>context question. Inr (context @ question))\<rparr>"

section \<open>Message ingestion (\<open>rag/message_processor.py\<close>)\<close>

text \<open>
  A raw message record is a value loaded from the JSON file. A character is a code
  point below 256; \<open>str.strip()\<close> removes leading and trailing whitespace, which in
  that range is U+0009 to U+000D, U+001C to U+0020, U+0085 and U+00A0.
\<close>

definition isspace :: "char \<Rightarrow> bool" where
  "isspace c = (of_char c \<in> {9, 10, 11, 12, 13, 28, 29, 30, 31, 32, 133, 160 :: nat})"

definition strip :: "string \<Rightarrow> string" where
  "strip s = rev (dropWhile isspace (rev (dropWhile isspace s)))"

fun str_strip :: "json \<Rightarrow> exn + string" where
  "str_strip (JStr s) = Inr (strip s)"
| "str_strip _ = Inl AttributeError"

text \<open>\<open>field in message\<close>: key membership on a dict, element membership on a list,
  substring test on a string; other values are not iterable.\<close>

fun py_in :: "string \<Rightarrow> json \<Rightarrow> exn + bool" where
  "py_in k (JObj kvs) = Inr (k \<in> set (map fst kvs))"
| "py_in k (JArr xs) = Inr (JStr k \<in> set xs)"
| "py_in k (JStr s) = Inr (contains k s)"
| "py_in k _ = Inl TypeError"

text \<open>\<open>value.get(key, dflt)\<close>: only a dict has the method.\<close>

fun dict_get :: "json \<Rightarrow> string \<Rightarrow> json \<Rightarrow> exn + json" where
  "dict_get (JObj kvs) k dflt = Inr (case map_of kvs k of None \<Rightarrow> dflt | Some v \<Rightarrow> v)"
| "dict_get _ k dflt = Inl AttributeError"

text \<open>The strings of a list of values, if all of them are strings.\<close>

fun strings :: "json list \<Rightarrow> string list option" where
  "strings [] = Some []"
| "strings (JStr s # xs) = map_option ((#) s) (strings xs)"
| "strings (_ # xs) = None"

text \<open>\<open>sep.join(value)\<close>: iterates a list, the characters of a string or the keys of a
  dict, and requires every item to be a string.\<close>

fun str_join :: "string \<Rightarrow> json \<Rightarrow> exn + string" where
  "str_join sep (JArr xs) =
     (case strings xs of None \<Rightarrow> Inl TypeError | Some ss \<Rightarrow> Inr (join sep ss))"
| "str_join sep (JStr s) = Inr (join sep (map (\<lambda>c. [c]) s))"
| "str_join sep (JObj kvs) = Inr (join sep (map fst kvs))"
| "str_join sep _ = Inl TypeError"

definition required_fields :: "string list" where
  "required_fields = [''message_id'', ''url'', ''author'', ''timestamp'', ''content'']"

text \<open>The loop over \<open>required_fields\<close> of \<open>validate_message\<close>.\<close>

fun has_fields :: "string list \<Rightarrow> json \<Rightarrow> exn + bool" where
  "has_fields [] message = Inr True"
| "has_fields (field # rest) message =
     then_do (py_in field message) (\<lambda>present.
       if \<not> present then Inr False else has_fields rest message)"

definition validate_message :: "json \<Rightarrow> exn + bool" where
  "validate_message message =
     then_do (has_fields required_fields message) (\<lambda>ok.
       if \<not> ok then Inr False
       else
         then_do (getitem message ''content'') (\<lambda>c.
         then_do (str_strip c) (\<lambda>stripped.
           if stripped = [] then Inr False else Inr True)))"

text \<open>The metadata dictionary built for a validated message.\<close>

definition message_metadata :: "json \<Rightarrow> exn + (string \<times> json) list" where
  "message_metadata message =
     then_do (getitem message ''url'') (\<lambda>url.
     then_do (getitem message ''author'') (\<lambda>author.
     then_do (getitem message ''timestamp'') (\<lambda>timestamp.
     then_do (dict_get message ''metadata'' (JObj [])) (\<lambda>metadata_extra.
     then_do (dict_get metadata_extra ''channel'' (JStr ''unknown'')) (\<lambda>channel.
     then_do (dict_get metadata_extra ''tags'' (JArr [])) (\<lambda>tags.
     then_do (str_join '','' tags) (\<lambda>joined.
       Inr [(''url'', url), (''author'', author), (''timestamp'', timestamp),
            (''channel'', channel), (''tags'', JStr joined)])))))))"

text \<open>
  The vector store as ingestion sees it. The embedding model and the index are outside
  the repository: \<open>collection_add\<close> stands for \<open>embedding_model.encode\<close> followed by
  \<open>collection.add\<close>, acting on the state \<open>'s\<close> of the index; it may raise, and
  \<open>add_messages_batch\<close> has no handler.
\<close>

record add_call =
  add_ids :: "json list"
  add_documents :: "json list"
  add_metadatas :: "(string \<times> json) list list"

definition VectorStore_add_messages_batch ::
  "(add_call \<Rightarrow> 's \<Rightarrow> exn + 's) \<Rightarrow> json list \<Rightarrow> json list \<Rightarrow> (string \<times> json) list list
     \<Rightarrow> 's \<Rightarrow> exn + 's" where
  "VectorStore_add_messages_batch collection_add message_ids contents metadata_dicts store =
     collection_add
       \<lparr>add_ids = message_ids, add_documents = contents, add_metadatas = metadata_dicts\<rparr>
       store"

text \<open>
  The loop of \<open>process_messages_batch\<close> over the messages still to visit, with the four
  lists \<open>valid_messages\<close>, \<open>message_ids\<close>, \<open>contents\<close> and \<open>metadatas\<close> (here
  \<open>metadata_dicts\<close>) it appends to.
\<close>

fun batch_loop ::
  "json list \<Rightarrow> json list \<times> json list \<times> json list \<times> (string \<times> json) list list
     \<Rightarrow> exn + json list \<times> json list \<times> json list \<times> (string \<times> json) list list" where
  "batch_loop [] acc = Inr acc"
| "batch_loop (message # rest) (valid_messages, message_ids, contents, metadata_dicts) =
     then_do (validate_message message) (\<lambda>valid.
       if \<not> valid then
         then_do (dict_get message ''message_id'' (JStr ''unknown'')) (\<lambda>logged.
           batch_loop rest (valid_messages, message_ids, contents, metadata_dicts))
       else
         then_do (getitem message ''message_id'') (\<lambda>message_id.
         then_do (getitem message ''content'') (\<lambda>content.
         then_do (message_metadata message) (\<lambda>metadata.
           batch_loop rest (valid_messages @ [message], message_ids @ [message_id],
                            contents @ [content], metadata_dicts @ [metadata])))))"

text \<open>
  \<open>process_messages_batch\<close>: the store is written only after the loop has visited
  every message, and only when some message was valid.
\<close>

definition process_messages_batch ::
  "(add_call \<Rightarrow> 's \<Rightarrow> exn + 's) \<Rightarrow> json list \<Rightarrow> 's \<Rightarrow> exn + int \<times> 's" where
  "process_messages_batch collection_add messages store =
     then_do (batch_loop messages ([], [], [], []))
       (\<lambda>(valid_messages, message_ids, contents, metadata_dicts).
          if valid_messages \<noteq> [] then
            then_do (VectorStore_add_messages_batch collection_add message_ids contents
                       metadata_dicts store)
              (\<lambda>store'. Inr (int (length valid_messages), store'))
          else Inr (int (length valid_messages), store))"

text \<open>Fixtures: a well-formed record, and records that differ from it in one place.\<close>

definition good_record :: json where
  "good_record =
     JObj [(''message_id'', JStr ''1''), (''url'', JStr ''u1''), (''author'', JStr ''Alice''),
           (''timestamp'', JStr ''t1''), (''content'', JStr ''Budget is 5'')]"

definition no_author_record :: json where
  "no_author_record =
     JObj [(''message_id'', JStr ''2''), (''url'', JStr ''u2''),
           (''timestamp'', JStr ''t2''), (''content'', JStr ''no author'')]"

definition blank_content_record :: json where
  "blank_content_record =
     JObj [(''message_id'', JStr ''3''), (''url'', JStr ''u3''), (''author'', JStr ''Bob''),
           (''timestamp'', JStr ''t3''), (''content'', JStr ''   '')]"

definition null_content_record :: json where
  "null_content_record =
     JObj [(''message_id'', JStr ''4''), (''url'', JStr ''u4''), (''author'', JStr ''Carol''),
           (''timestamp'', JStr ''t4''), (''content'', JNull)]"

definition null_tags_record :: json where
  "null_tags_record =
     JObj [(''message_id'', JStr ''5''), (''url'', JStr ''u5''), (''author'', JStr ''Dan''),
           (''timestamp'', JStr ''t5''), (''content'', JStr ''tagged''),
           (''metadata'', JObj [(''tags'', JNull)])]"

section \<open>Properties of the response cache\<close>

lemma get_try_fresh:
  "get_try c t' (Doc (JObj [(''timestamp'', JNum t), (''prompt'', JStr p),
                            (''model'', JStr m), (''response'', JStr r)]))
     = (if t' - t > real_of_int (ttl_seconds c) then Inr None else Inr (Some (JStr r)))"
  by (simp add: get_try_def)

text \<open>
  Claim C5. A response stored with \<open>set(p, m, r)\<close> at time \<open>t\<close> is returned unchanged
  by \<open>get(p, m)\<close> at any time \<open>t'\<close> not more than \<open>ttl_seconds\<close> later, and the entry
  stays in storage; once more than \<open>ttl_seconds\<close> have elapsed, \<open>get(p, m)\<close> returns
  absent and the entry's file is removed from storage.
\<close>

theorem cache_round_trip:
  "(t' - t \<le> real_of_int (ttl_seconds c) \<longrightarrow>
      ResponseCache_get sha256 c p m t' (ResponseCache_set sha256 c p m r t fs)
        = (Inr (Some (JStr r)), ResponseCache_set sha256 c p m r t fs))
   \<and> (t' - t > real_of_int (ttl_seconds c) \<longrightarrow>
        fst (ResponseCache_get sha256 c p m t' (ResponseCache_set sha256 c p m r t fs))
          = Inr None
      \<and> snd (ResponseCache_get sha256 c p m t' (ResponseCache_set sha256 c p m r t fs))
            (get_cache_path c (get_cache_key sha256 p m)) = None)"
  by (simp add: ResponseCache_get_def ResponseCache_set_def Let_def get_try_fresh)

theorem cache_round_trip_witness:
  "(10::real) - 10 \<le> real_of_int 3600
   \<and> fst (ResponseCache_get (\<lambda>s. s) \<lparr>cache_dir = ''data/cache'', ttl_seconds = 3600\<rparr>
          ''What is AI?'' ''claude'' 10
          (ResponseCache_set (\<lambda>s. s) \<lparr>cache_dir = ''data/cache'', ttl_seconds = 3600\<rparr>
             ''What is AI?'' ''claude'' ''AI is artificial intelligence.'' 10 Map.empty))
     = Inr (Some (JStr ''AI is artificial intelligence.''))
   \<and> (12::real) - 10 > real_of_int 1
   \<and> fst (ResponseCache_get (\<lambda>s. s) \<lparr>cache_dir = ''data/cache'', ttl_seconds = 1\<rparr>
          ''What is AI?'' ''claude'' 12
          (ResponseCache_set (\<lambda>s. s) \<lparr>cache_dir = ''data/cache'', ttl_seconds = 1\<rparr>
             ''What is AI?'' ''claude'' ''AI is artificial intelligence.'' 10 Map.empty))
     = Inr None
   \<and> snd (ResponseCache_get (\<lambda>s. s) \<lparr>cache_dir = ''data/cache'', ttl_seconds = 1\<rparr>
          ''What is AI?'' ''claude'' 12
          (ResponseCache_set (\<lambda>s. s) \<lparr>cache_dir = ''data/cache'', ttl_seconds = 1\<rparr>
             ''What is AI?'' ''claude'' ''AI is artificial intelligence.'' 10 Map.empty))
        (get_cache_path \<lparr>cache_dir = ''data/cache'', ttl_seconds = 1\<rparr>
           (get_cache_key (\<lambda>s. s) ''What is AI?'' ''claude'')) = None"
  using cache_round_trip [of 10 10 "\<lparr>cache_dir = ''data/cache'', ttl_seconds = 3600\<rparr>"
          "\<lambda>s. s" "''What is AI?''" "''claude''" "''AI is artificial intelligence.''" Map.empty]
        cache_round_trip [of 12 10 "\<lparr>cache_dir = ''data/cache'', ttl_seconds = 1\<rparr>"
          "\<lambda>s. s" "''What is AI?''" "''claude''" "''AI is artificial intelligence.''" Map.empty]
  by simp

text \<open>
  Claim C6 (what the code does at an entry with a field of the wrong type). When the
  stored entry is a JSON object whose \<open>timestamp\<close> is a string, \<open>get\<close> raises
  \<open>TypeError\<close> to its caller and leaves the entry in storage: the handler of \<open>get\<close>
  catches \<open>JSONDecodeError\<close> and \<open>KeyError\<close> only.
\<close>

theorem cache_get_wrong_type_raises:
  "ResponseCache_get sha256 c p m now
     (fs(get_cache_path c (get_cache_key sha256 p m) \<mapsto>
           Doc (JObj [(''timestamp'', JStr ''yesterday''), (''response'', JStr ''r'')])))
   = (Inl TypeError,
      fs(get_cache_path c (get_cache_key sha256 p m) \<mapsto>
           Doc (JObj [(''timestamp'', JStr ''yesterday''), (''response'', JStr ''r'')])))"
  by (simp add: ResponseCache_get_def Let_def get_try_def)

text \<open>
  Claim C10. The pairs (model \<open>a:b\<close>, prompt \<open>c\<close>) and (model \<open>a\<close>, prompt \<open>b:c\<close>) are
  distinct and have the same cache key, whatever the hash function; so after a \<open>set\<close>
  under the second pair and then a \<open>set\<close> of \<open>r\<close> under the first, a \<open>get\<close> under the
  second pair within the time-to-live returns \<open>r\<close>.
\<close>

theorem cache_key_collision:
  "(''c'', ''a:b'') \<noteq> (''b:c'', ''a'')
   \<and> get_cache_key sha256 ''c'' ''a:b'' = get_cache_key sha256 ''b:c'' ''a''
   \<and> (t' - t \<le> real_of_int (ttl_seconds c) \<longrightarrow>
        fst (ResponseCache_get sha256 c ''b:c'' ''a'' t'
               (ResponseCache_set sha256 c ''c'' ''a:b'' r t
                  (ResponseCache_set sha256 c ''b:c'' ''a'' r0 t0 fs)))
          = Inr (Some (JStr r)))"
  by (simp add: ResponseCache_get_def ResponseCache_set_def Let_def get_try_fresh
        get_cache_key_def)

theorem cache_key_collision_witness:
  "(5::real) - 4 \<le> real_of_int 3600
   \<and> fst (ResponseCache_get (\<lambda>s. s) \<lparr>cache_dir = ''data/cache'', ttl_seconds = 3600\<rparr>
            ''b:c'' ''a'' 5
            (ResponseCache_set (\<lambda>s. s) \<lparr>cache_dir = ''data/cache'', ttl_seconds = 3600\<rparr>
               ''c'' ''a:b'' ''second'' 4
               (ResponseCache_set (\<lambda>s. s) \<lparr>cache_dir = ''data/cache'', ttl_seconds = 3600\<rparr>
                  ''b:c'' ''a'' ''first'' 3 Map.empty)))
       = Inr (Some (JStr ''second''))"
  using cache_key_collision [of "\<lambda>s. s" 5 4
          "\<lparr>cache_dir = ''data/cache'', ttl_seconds = 3600\<rparr>" "''second''" "''first''" 3
          Map.empty]
  by simp

section \<open>Properties of the retry wrapper\<close>

text \<open>
  The loop on an operation that always fails with a retryable exception, started at any
  attempt \<open>k \<le> max_retries\<close>: it invokes the operation once per remaining attempt and
  ends by raising what the last invocation raised.
\<close>

lemma wrapper_loop_always_fails:
  assumes fails: "\<And>s. \<exists>e. fst (func s) = Inl e \<and> exceptions e"
      and b: "0 \<le> backoff"
  shows "k \<le> N \<Longrightarrow> 0 \<le> d \<Longrightarrow>
         wrapper_loop exceptions func N backoff [k..N] d le s n sl = r \<Longrightarrow>
         invocations r = n + nat (N - k + 1)
         \<and> outcome r = map_sum id Some (fst (func (((\<lambda>s. snd (func s)) ^^ nat (N - k)) s)))
         \<and> final_state r = ((\<lambda>s. snd (func s)) ^^ nat (N - k + 1)) s
         \<and> length (sleeps r) = length sl + nat (N - k)"
proof (induction "nat (N - k)" arbitrary: k d le s n sl r)
  case 0
  then have kN: "k = N" by simp
  obtain e where e: "fst (func s) = Inl e" "exceptions e" using fails by blast
  obtain s' where s': "func s = (Inl e, s')" using e by (cases "func s") auto
  have "[k..N] = [N]" using kN by (simp add: upto_rec1)
  with 0 e s' kN show ?case by auto
next
  case (Suc m)
  then have kN: "k < N" by simp
  obtain e where e: "fst (func s) = Inl e" "exceptions e" using fails by blast
  obtain s' where s': "func s = (Inl e, s')" using e by (cases "func s") auto
  have up: "[k..N] = k # [k+1..N]" using kN by (simp add: upto_rec1)
  have m: "m = nat (N - (k+1))" using Suc.hyps(2) by simp
  have d': "0 \<le> d * backoff" using Suc.prems b by simp
  have r: "wrapper_loop exceptions func N backoff [k+1..N] (d * backoff) (Some e) s' (Suc n) (sl @ [d]) = r"
    using Suc.prems(3) up e s' kN Suc.prems(2) by simp
  have k1: "k + 1 \<le> N" using kN by simp
  note IH = Suc.hyps(1)[OF m k1 d' r]
  have n1: "nat (N - k) = Suc (nat (N - (k+1)))" using kN by simp
  have n2: "nat (N - k + 1) = Suc (nat (N - (k+1) + 1))" using kN by simp
  show ?case using IH s' unfolding n1 n2 by (simp add: funpow_Suc_right del: funpow.simps)
qed

text \<open>
  Claim C3. With \<open>max_retries = N\<close> (a count, \<open>N \<ge> 0\<close>, and non-negative \<open>delay\<close> and
  \<open>backoff\<close>, so that every sleep is accepted): an operation that always fails with a
  retryable exception is invoked exactly \<open>N + 1\<close> times and the wrapper then raises the
  very exception of the last invocation; an operation whose first failure is not
  retryable is invoked exactly once and that exception propagates.
\<close>

theorem retry_exhaustion:
  assumes "0 \<le> N" and "0 \<le> delay" and "0 \<le> backoff"
  shows "((\<forall>s. \<exists>e. fst (func s) = Inl e \<and> exceptions e) \<longrightarrow>
            invocations (retry_on_error N delay backoff exceptions func s0) = nat (N + 1)
          \<and> (\<exists>e. fst (func (((\<lambda>s. snd (func s)) ^^ nat N) s0)) = Inl e
                 \<and> outcome (retry_on_error N delay backoff exceptions func s0) = Inl e))
       \<and> (fst (func s0) = Inl e0 \<and> \<not> exceptions e0 \<longrightarrow>
            invocations (retry_on_error N delay backoff exceptions func s0) = 1
          \<and> outcome (retry_on_error N delay backoff exceptions func s0) = Inl e0)"
proof (intro conjI impI)
  assume fails: "\<forall>s. \<exists>e. fst (func s) = Inl e \<and> exceptions e"
  define r where "r = retry_on_error N delay backoff exceptions func s0"
  have loop: "wrapper_loop exceptions func N backoff [0..N] delay None s0 0 [] = r"
    by (simp add: r_def retry_on_error_def)
  have run: "invocations r = 0 + nat (N - 0 + 1)
      \<and> outcome r = map_sum id Some (fst (func (((\<lambda>s. snd (func s)) ^^ nat (N - 0)) s0)))
      \<and> final_state r = ((\<lambda>s. snd (func s)) ^^ nat (N - 0 + 1)) s0
      \<and> length (sleeps r) = length ([]::real list) + nat (N - 0)"
    using fails assms by (intro wrapper_loop_always_fails [OF _ _ _ _ loop]) auto
  show "invocations (retry_on_error N delay backoff exceptions func s0) = nat (N + 1)"
    using run by (simp add: r_def)
  obtain e where e: "fst (func (((\<lambda>s. snd (func s)) ^^ nat N) s0)) = Inl e"
    using fails by blast
  show "\<exists>e. fst (func (((\<lambda>s. snd (func s)) ^^ nat N) s0)) = Inl e
            \<and> outcome (retry_on_error N delay backoff exceptions func s0) = Inl e"
    using run e by (simp add: r_def)
next
  assume nr: "fst (func s0) = Inl e0 \<and> \<not> exceptions e0"
  then obtain s' where s': "func s0 = (Inl e0, s')" by (cases "func s0") auto
  have up: "[0..N] = 0 # [0+1..N]" using assms(1) by (simp add: upto_rec1)
  show "invocations (retry_on_error N delay backoff exceptions func s0) = 1"
    using nr s' by (simp add: retry_on_error_def up)
  show "outcome (retry_on_error N delay backoff exceptions func s0) = Inl e0"
    using nr s' by (simp add: retry_on_error_def up)
qed

theorem retry_exhaustion_witness:
  "(0::int) \<le> 3 \<and> (0::real) \<le> 1 \<and> (0::real) \<le> 2
   \<and> invocations (retry_on_error 3 1 2
       (\<lambda>e. case e of AppError k m \<Rightarrow> k = ''RateLimitError'' | _ \<Rightarrow> False)
       (\<lambda>s::nat. (Inl (AppError ''RateLimitError'' ''busy'') :: exn + unit, Suc s)) 0) = 4
   \<and> outcome (retry_on_error 3 1 2
       (\<lambda>e. case e of AppError k m \<Rightarrow> k = ''RateLimitError'' | _ \<Rightarrow> False)
       (\<lambda>s::nat. (Inl (AppError ''RateLimitError'' ''busy'') :: exn + unit, Suc s)) 0)
       = Inl (AppError ''RateLimitError'' ''busy'')
   \<and> invocations (retry_on_error 3 1 2
       (\<lambda>e. case e of AppError k m \<Rightarrow> k = ''RateLimitError'' | _ \<Rightarrow> False)
       (\<lambda>s::nat. (Inl (AppError ''PermanentAPIError'' ''denied'') :: exn + unit, Suc s)) 0) = 1
   \<and> outcome (retry_on_error 3 1 2
       (\<lambda>e. case e of AppError k m \<Rightarrow> k = ''RateLimitError'' | _ \<Rightarrow> False)
       (\<lambda>s::nat. (Inl (AppError ''PermanentAPIError'' ''denied'') :: exn + unit, Suc s)) 0)
       = Inl (AppError ''PermanentAPIError'' ''denied'')"
  using retry_exhaustion [of 3 1 2
          "\<lambda>s::nat. (Inl (AppError ''RateLimitError'' ''busy'') :: exn + unit, Suc s)"
          "\<lambda>e. case e of AppError k m \<Rightarrow> k = ''RateLimitError'' | _ \<Rightarrow> False" 0]
        retry_exhaustion [of 3 1 2
          "\<lambda>s::nat. (Inl (AppError ''PermanentAPIError'' ''denied'') :: exn + unit, Suc s)"
          "\<lambda>e. case e of AppError k m \<Rightarrow> k = ''RateLimitError'' | _ \<Rightarrow> False" 0
          "AppError ''PermanentAPIError'' ''denied''"]
  by simp

section \<open>Properties of the rate limiter\<close>

text \<open>
  Claim C4 (what the code does when the clock reads exactly the end of the window after
  the sleep). With a capacity of 2 requests per window, requests admitted at times 0
  and 1, and a third \<open>acquire\<close> at time 2: the call sleeps 58 seconds; when the clock
  then reads 60, the oldest timestamp is not removed (\<open>60 - 0 > 60\<close> is false), the
  third request is admitted, and the usage read at that time is 3 requests.
\<close>

theorem rate_limiter_boundary_overshoot:
  "RateLimiter_acquire 0 0 (RateLimiter_init 2)
     = Inr (None, \<lparr>requests_per_minute = 2, window_size = 60, requests = [0]\<rparr>)
   \<and> RateLimiter_acquire 1 1 \<lparr>requests_per_minute = 2, window_size = 60, requests = [0]\<rparr>
     = Inr (None, \<lparr>requests_per_minute = 2, window_size = 60, requests = [0, 1]\<rparr>)
   \<and> RateLimiter_acquire 2 60 \<lparr>requests_per_minute = 2, window_size = 60, requests = [0, 1]\<rparr>
     = Inr (Some 58, \<lparr>requests_per_minute = 2, window_size = 60, requests = [0, 1, 60]\<rparr>)
   \<and> current_requests (fst (RateLimiter_get_current_usage 60
        \<lparr>requests_per_minute = 2, window_size = 60, requests = [0, 1, 60]\<rparr>)) = 3"
  by (simp add: RateLimiter_acquire_def RateLimiter_init_def popleft_expired_def
        RateLimiter_get_current_usage_def Let_def)

text \<open>
  Where the bound does hold: if the limiter holds at most its capacity and the clock
  reading after the sleep is strictly later than the end of the oldest request's
  window, \<open>acquire\<close> leaves at most the capacity, and reading the usage never counts
  more than what is retained.
\<close>

lemma acquire_bound_when_clock_passes_window:
  assumes bound: "int (length (requests rl)) \<le> requests_per_minute rl"
      and run: "RateLimiter_acquire now now_after rl = Inr (slept, rl')"
      and strict: "\<And>oldest rest. requests (popleft_expired now rl) = oldest # rest
                     \<Longrightarrow> now_after - oldest > window_size rl"
  shows "int (length (requests rl')) \<le> requests_per_minute rl'"
proof -
  let ?rl1 = "popleft_expired now rl"
  have len1: "length (requests ?rl1) \<le> length (requests rl)"
    by (simp add: popleft_expired_def length_dropWhile_le)
  show ?thesis
  proof (cases "int (length (requests ?rl1)) \<ge> requests_per_minute ?rl1")
    case False
    with run show ?thesis
      by (auto simp: RateLimiter_acquire_def Let_def popleft_expired_def)
  next
    case True
    with run obtain oldest rest where o: "requests ?rl1 = oldest # rest"
      by (cases "requests ?rl1") (auto simp: RateLimiter_acquire_def Let_def)
    have gone: "now_after - oldest > window_size rl" using strict [OF o] .
    have "length (requests (popleft_expired now_after ?rl1)) \<le> length rest"
      using o gone by (simp add: popleft_expired_def length_dropWhile_le)
    moreover have "rl' = (popleft_expired now_after ?rl1)
                     \<lparr>requests := requests (popleft_expired now_after ?rl1) @ [now_after]\<rparr>"
      using run True o by (simp add: RateLimiter_acquire_def Let_def)
    moreover have "int (length (oldest # rest)) \<le> requests_per_minute rl"
      using len1 bound o by simp
    ultimately show ?thesis by (simp add: popleft_expired_def)
  qed
qed

lemma usage_at_most_retained:
  "current_requests (fst (RateLimiter_get_current_usage now rl)) \<le> int (length (requests rl))"
  by (simp add: RateLimiter_get_current_usage_def Let_def popleft_expired_def length_dropWhile_le)

section \<open>Properties of the query engine\<close>

text \<open>The substring test computes the contiguous-sublist relation.\<close>

lemma contains_sublist: "contains sub s \<longleftrightarrow> sublist sub s"
  by (induction s) (auto simp: sublist_Cons_right)

lemma foldl_append_lines:
  "foldl (\<lambda>out s. out @ f s) acc ss = acc @ concat (map f ss)"
  by (induction ss arbitrary: acc) auto

text \<open>
  Claim C9. \<open>format_response\<close>: with no sources the answer is returned verbatim; with
  sources and an answer that does not contain \<open>Sources:\<close>, the result is the answer, a
  blank line, the header line \<open>Sources:\<close> and one line \<open>- preview by author (url)\<close> per
  source, in source order; with sources and an answer that contains \<open>Sources:\<close>, the
  answer is returned unchanged.
\<close>

theorem format_response_cases:
  "(sources r = [] \<longrightarrow> format_response r = answer r)
   \<and> (sources r \<noteq> [] \<and> \<not> sublist ''Sources:'' (answer r) \<longrightarrow>
        format_response r
          = answer r @ NL @ NL @ ''Sources:'' @ NL
            @ concat (map (\<lambda>s. ''- '' @ content_preview s @ '' by '' @ author s
                                @ '' ('' @ url s @ '')'' @ NL) (sources r)))
   \<and> (sources r \<noteq> [] \<and> sublist ''Sources:'' (answer r) \<longrightarrow> format_response r = answer r)"
  by (simp add: format_response_def Let_def contains_sublist foldl_append_lines source_line_def)

theorem format_response_cases_witness:
  "format_response \<lparr>answer = ''The budget is 5.'', sources = [], context_used = [],
                    num_sources = None\<rparr> = ''The budget is 5.''
   \<and> \<not> sublist ''Sources:'' ''The budget is 5.''
   \<and> format_response
        \<lparr>answer = ''The budget is 5.'',
         sources = [\<lparr>url = ''u1'', author = ''Alice'', timestamp = ''t1'', source_score = 9/10,
                     content_preview = ''budget''\<rparr>,
                    \<lparr>url = ''u2'', author = ''Bob'', timestamp = ''t2'', source_score = 3/5,
                     content_preview = ''feature''\<rparr>],
         context_used = [], num_sources = Some 2\<rparr>
       = ''The budget is 5.'' @ NL @ NL @ ''Sources:'' @ NL
         @ ''- budget by Alice (u1)'' @ NL @ ''- feature by Bob (u2)'' @ NL
   \<and> sublist ''Sources:'' ''See Sources: none''
   \<and> format_response
        \<lparr>answer = ''See Sources: none'',
         sources = [\<lparr>url = ''u1'', author = ''Alice'', timestamp = ''t1'', source_score = 9/10,
                     content_preview = ''budget''\<rparr>],
         context_used = [], num_sources = Some 1\<rparr>
       = ''See Sources: none''"
  using format_response_cases [of "\<lparr>answer = ''The budget is 5.'', sources = [],
           context_used = [], num_sources = None\<rparr>"]
        format_response_cases [of "\<lparr>answer = ''The budget is 5.'',
         sources = [\<lparr>url = ''u1'', author = ''Alice'', timestamp = ''t1'', source_score = 9/10,
                     content_preview = ''budget''\<rparr>,
                    \<lparr>url = ''u2'', author = ''Bob'', timestamp = ''t2'', source_score = 3/5,
                     content_preview = ''feature''\<rparr>],
         context_used = [], num_sources = Some 2\<rparr>"]
        format_response_cases [of "\<lparr>answer = ''See Sources: none'',
         sources = [\<lparr>url = ''u1'', author = ''Alice'', timestamp = ''t1'', source_score = 9/10,
                     content_preview = ''budget''\<rparr>],
         context_used = [], num_sources = Some 1\<rparr>"]
  by (simp add: contains_sublist [symmetric])

text \<open>
  Raising the threshold keeps a sublist of the rows: a search that returns under both
  thresholds returns no more hits under the higher one.
\<close>

lemma search_rows_monotone:
  "t1 \<le> t2 \<Longrightarrow> search_rows res (Some t1) row is = Inr h1 \<Longrightarrow>
   search_rows res (Some t2) row is = Inr h2 \<Longrightarrow> length h2 \<le> length h1"
proof (induction "is" arbitrary: h1 h2)
  case Nil
  then show ?case by simp
next
  case (Cons i rest)
  show ?case
  proof (cases "column_at (distances res) i 0")
    case (Inl x)
    with Cons.prems show ?thesis by simp
  next
    case (Inr d)
    show ?thesis
    proof (cases "1 - d < t1")
      case True
      with Cons Inr show ?thesis by (simp add: Let_def)
    next
      case False
      note keep1 = False
      from Cons.prems(2) Inr keep1 obtain hit r1 where
        r1: "search_rows res (Some t1) row rest = Inr r1" "h1 = hit # r1"
        by (cases "column_at (documents res) i []"; cases "column_at (metadatas res) i []";
            cases "search_rows res (Some t1) row rest") (auto simp: Let_def)
      show ?thesis
      proof (cases "1 - d < t2")
        case True
        with Cons.prems(3) Inr have "search_rows res (Some t2) row rest = Inr h2"
          by (simp add: Let_def)
        from Cons.IH[OF Cons.prems(1) r1(1) this] r1(2) show ?thesis by simp
      next
        case False
        from Cons.prems(3) Inr False obtain hit2 r2 where
          r2: "search_rows res (Some t2) row rest = Inr r2" "h2 = hit2 # r2"
          by (cases "column_at (documents res) i []"; cases "column_at (metadatas res) i []";
              cases "search_rows res (Some t2) row rest") (auto simp: Let_def)
        from Cons.IH[OF Cons.prems(1) r1(1) r2(1)] r1(2) r2(2) show ?thesis by simp
      qed
    qed
  qed
qed

lemma search_monotone:
  "t1 \<le> t2 \<Longrightarrow> VectorStore_search cq q k (Some t1) = Inr h1 \<Longrightarrow>
   VectorStore_search cq q k (Some t2) = Inr h2 \<Longrightarrow> length h2 \<le> length h1"
  by (cases "cq q k")
     (auto simp: VectorStore_search_def split: list.splits dest: search_rows_monotone)

lemma query_sources_length:
  "QueryEngine_query e q = (Inr r, calls) \<Longrightarrow>
   \<exists>hits. VectorStore_search (collection_query e) q (top_k e) (Some (min_similarity e)) = Inr hits
        \<and> length (sources r) = length hits"
  by (auto simp: QueryEngine_query_def split: sum.splits if_splits)

text \<open>
  Claim C8. For one engine and question and two thresholds \<open>t1 \<le> t2\<close>: when
  \<open>query\<close> returns a response under each threshold, the response under \<open>t2\<close> has no
  more sources than the response under \<open>t1\<close>.
\<close>

theorem threshold_monotonicity:
  assumes "t1 \<le> t2"
      and "fst (QueryEngine_query (e\<lparr>min_similarity := t1\<rparr>) question) = Inr r1"
      and "fst (QueryEngine_query (e\<lparr>min_similarity := t2\<rparr>) question) = Inr r2"
  shows "length (sources r2) \<le> length (sources r1)"
proof -
  obtain c1 where q1: "QueryEngine_query (e\<lparr>min_similarity := t1\<rparr>) question = (Inr r1, c1)"
    using assms(2) by (cases "QueryEngine_query (e\<lparr>min_similarity := t1\<rparr>) question") auto
  obtain c2 where q2: "QueryEngine_query (e\<lparr>min_similarity := t2\<rparr>) question = (Inr r2, c2)"
    using assms(3) by (cases "QueryEngine_query (e\<lparr>min_similarity := t2\<rparr>) question") auto
  from query_sources_length [OF q1] obtain h1 where
    h1: "VectorStore_search (collection_query e) question (top_k e) (Some t1) = Inr h1"
        "length (sources r1) = length h1" by auto
  from query_sources_length [OF q2] obtain h2 where
    h2: "VectorStore_search (collection_query e) question (top_k e) (Some t2) = Inr h2"
        "length (sources r2) = length h2" by auto
  from search_monotone [OF assms(1) h1(1) h2(1)] h1(2) h2(2) show ?thesis by simp
qed

lemma demo_low:
  "fst (QueryEngine_query (demo_engine\<lparr>min_similarity := 1/2\<rparr>) ''q'')
     = Inr (projr (fst (QueryEngine_query (demo_engine\<lparr>min_similarity := 1/2\<rparr>) ''q'')))"
  by (simp add: QueryEngine_query_def demo_engine_def VectorStore_search_def upt_rec
        column_at_def Let_def)

lemma demo_high:
  "fst (QueryEngine_query (demo_engine\<lparr>min_similarity := 4/5\<rparr>) ''q'')
     = Inr (projr (fst (QueryEngine_query (demo_engine\<lparr>min_similarity := 4/5\<rparr>) ''q'')))"
  by (simp add: QueryEngine_query_def demo_engine_def VectorStore_search_def upt_rec
        column_at_def Let_def)

theorem threshold_monotonicity_witness:
  "(1/2::real) \<le> 4/5
   \<and> length (sources (projr (fst (QueryEngine_query (demo_engine\<lparr>min_similarity := 4/5\<rparr>) ''q''))))
     \<le> length (sources (projr (fst (QueryEngine_query (demo_engine\<lparr>min_similarity := 1/2\<rparr>) ''q''))))"
  using threshold_monotonicity [OF _ demo_low demo_high] by simp

text \<open>
  When the filtered search result is empty, \<open>query\<close> returns the fixed answer with
  empty sources and empty context, makes no LLM call, and its response has no
  \<open>num_sources\<close> key.
\<close>

lemma query_no_results:
  "VectorStore_search (collection_query e) question (top_k e) (Some (min_similarity e)) = Inr []
   \<Longrightarrow> QueryEngine_query e question
       = (Inr \<lparr>answer = no_results_answer, sources = [], context_used = [],
               num_sources = None\<rparr>, [])"
  by (simp add: QueryEngine_query_def)

text \<open>
  Claim C1 (what the code returns when every similarity is below the threshold). With
  similarities 0.9 and 0.6 and \<open>min_similarity = 0.95\<close>, \<open>query\<close> returns the fixed
  answer, no sources and no context, and makes no LLM call; the response carries no
  \<open>num_sources\<close> key, where the other branch of \<open>query\<close> stores the number of sources.
\<close>

theorem query_no_results_omits_num_sources:
  "QueryEngine_query (demo_engine\<lparr>min_similarity := 19/20\<rparr>) ''What was discussed?''
     = (Inr \<lparr>answer = ''I couldn't find any relevant messages to answer your question.'',
             sources = [], context_used = [], num_sources = None\<rparr>, [])"
  by (simp add: QueryEngine_query_def demo_engine_def VectorStore_search_def upt_rec
        column_at_def Let_def no_results_answer_def)

section \<open>Properties of message ingestion\<close>

text \<open>On a dictionary, the field loop of \<open>validate_message\<close> is a test of key presence.\<close>

lemma has_fields_obj:
  "has_fields fs (JObj kvs) = Inr (list_all (\<lambda>f. f \<in> set (map fst kvs)) fs)"
  by (induction fs) auto

text \<open>
  The two kinds of record that validation is written for are skipped: next to a record
  without an author and a record with blank content, the well-formed record alone is
  handed to the store, and the count is what the store's \<open>add\<close> lets through.
\<close>

lemma batch_skips_missing_and_blank:
  "process_messages_batch collection_add
     [good_record, no_author_record, blank_content_record] store
   = then_do (collection_add
                \<lparr>add_ids = [JStr ''1''], add_documents = [JStr ''Budget is 5''],
                 add_metadatas = [[(''url'', JStr ''u1''), (''author'', JStr ''Alice''),
                                   (''timestamp'', JStr ''t1''),
                                   (''channel'', JStr ''unknown''), (''tags'', JStr [])]]\<rparr>
                store)
       (\<lambda>store'. Inr (1, store'))"
  by (simp add: process_messages_batch_def VectorStore_add_messages_batch_def
        validate_message_def message_metadata_def required_fields_def strip_def isspace_def
        good_record_def no_author_record_def blank_content_record_def)

text \<open>
  Claim C7 (what the code does at a record that validation is not written for). A
  batch of a well-formed record followed by a record whose \<open>content\<close> is \<open>null\<close> raises
  \<open>AttributeError\<close> out of \<open>process_messages_batch\<close>: no count is returned and the
  store is never called, so the well-formed record is not committed. The same happens
  with a record that is not an object (\<open>AttributeError\<close> from the \<open>get\<close> of the
  skip message) and with a record whose \<open>tags\<close> is \<open>null\<close> (\<open>TypeError\<close> from \<open>join\<close>).
\<close>

theorem batch_aborts_on_malformed_record:
  "process_messages_batch collection_add [good_record, null_content_record] store
     = Inl AttributeError
   \<and> process_messages_batch collection_add [good_record, JStr ''not a record''] store
     = Inl AttributeError
   \<and> process_messages_batch collection_add [good_record, null_tags_record] store
     = Inl TypeError"
  by (simp add: process_messages_batch_def validate_message_def message_metadata_def
        required_fields_def strip_def isspace_def good_record_def null_content_record_def
        null_tags_record_def)

end
